theory Spec2Isabelle
  imports Complex_Main "HOL-Library.Sublist"
begin

section \<open>Data model\<close>

text \<open>
  The development embeds the audio ingestion pipeline of \<^verbatim>\<open>API/streamlit_app.py\<close>:
  \<^verbatim>\<open>extract_audio_metadata\<close>, \<^verbatim>\<open>process_audio_file\<close>, \<^verbatim>\<open>force_real_result\<close> and the
  record branch of \<^verbatim>\<open>main\<close>. Python floats are idealised as reals, with one extra value
  for NaN where the source produces it. Every Python exception that \<^verbatim>\<open>except Exception\<close>
  catches is a value of type \<open>error\<close>; a function that may raise returns \<open>error + 'a\<close>.
\<close>

datatype error =
    OSError string
  | LibsndfileError string
  | ParameterError string
  | RuntimeError string
  | UnboundLocalError string
  | ValueError string
  | UnicodeEncodeError string

datatype pyfloat = Finite real | NaN

text \<open>
  What \<^verbatim>\<open>sf.read(filepath, always_2d=False)\<close> hands back: a one-dimensional array for a
  single channel, otherwise a two-dimensional one with a row per frame and a column per
  channel.
\<close>

datatype ndarray = Arr1 "real list" | Arr2 "real list list"

type_synonym bytes = "char list"

record audio_info =
  samples :: nat
  sr :: int
  duration :: real
  avg_pitch :: pyfloat
  avg_energy :: pyfloat
  waveform :: "real list"

record uploaded_file =
  name :: string
  read :: bytes

text \<open>
  The file system as far as the pipeline touches it: the working directory, the
  directories that exist and the regular files with their contents, all under their
  resolved absolute paths (the root \<open>/\<close> always exists), and the paths that the operating
  system refuses to delete (a file held open elsewhere, a missing permission).
\<close>

record filesystem =
  cwd :: string
  dirs :: "string list"
  files :: "(string \<times> bytes) list"
  locked :: "string list"

text \<open>
  The collaborators the source calls but does not define: libsndfile's decoder, the
  float32 rounding of numpy, librosa's resampler, YIN tracker and RMS, the name that
  \<^verbatim>\<open>tempfile.mkdtemp\<close> picks, standard output as \<^verbatim>\<open>print\<close> writes to it (a closed stream or
  a name the console encoding cannot show makes it raise), and the classifier
  \<^verbatim>\<open>infa_deepfake\<close>. The classifier may read and write the file system.
\<close>

record env =
  libsndfile :: "string \<Rightarrow> bytes \<Rightarrow> error + (ndarray \<times> int)"
  float32 :: "real \<Rightarrow> real"
  resample :: "real list \<Rightarrow> int \<Rightarrow> int \<Rightarrow> error + real list"
  yin :: "real list \<Rightarrow> real \<Rightarrow> real \<Rightarrow> error + pyfloat list"
  rms :: "real list \<Rightarrow> error + pyfloat list"
  tempdir_choice :: "filesystem \<Rightarrow> error + string"
  print_stdout :: "string \<Rightarrow> error option"
  infa_deepfake :: "string \<Rightarrow> filesystem \<Rightarrow> (error + (int \<times> string)) \<times> filesystem"

section \<open>Library operations used by the source\<close>

text \<open>\<^verbatim>\<open>np.mean(y, axis=1)\<close>: the mean of every row.\<close>

definition mean_axis1 :: "real list list \<Rightarrow> real list" where
  "mean_axis1 rows = map (\<lambda>row. sum_list row / real (length row)) rows"

text \<open>\<^verbatim>\<open>np.nanmean\<close>: the mean of the entries that are not NaN, NaN when there is none.\<close>

fun finite_values :: "pyfloat list \<Rightarrow> real list" where
  "finite_values [] = []"
| "finite_values (Finite x # xs) = x # finite_values xs"
| "finite_values (NaN # xs) = finite_values xs"

definition nanmean :: "pyfloat list \<Rightarrow> pyfloat" where
  "nanmean xs =
     (let vs = finite_values xs
      in if vs = [] then NaN else Finite (sum_list vs / real (length vs)))"

text \<open>\<^verbatim>\<open>librosa.get_duration(y=y, sr=sr)\<close>: the number of samples over the rate.\<close>

definition get_duration :: "real list \<Rightarrow> int \<Rightarrow> real" where
  "get_duration y rate = real (length y) / real_of_int rate"

text \<open>\<^verbatim>\<open>os.path.join\<close> on two components (POSIX).\<close>

definition path_join :: "string \<Rightarrow> string \<Rightarrow> string" where
  "path_join a b =
     (if b \<noteq> [] \<and> hd b = CHR ''/'' then b
      else if a = [] \<or> last a = CHR ''/'' then a @ b
      else a @ ''/'' @ b)"

text \<open>\<^verbatim>\<open>os.path.dirname\<close> (POSIX): everything up to the last slash, trailing slashes stripped.\<close>

definition parent_dir :: "string \<Rightarrow> string" where
  "parent_dir p =
     (let h = rev (dropWhile (\<lambda>c. c \<noteq> CHR ''/'') (rev p))
      in if filter (\<lambda>c. c \<noteq> CHR ''/'') h \<noteq> []
         then rev (dropWhile (\<lambda>c. c = CHR ''/'') (rev h)) else h)"

definition under :: "string \<Rightarrow> string \<Rightarrow> bool" where
  "under d p = prefix (d @ ''/'') p"

text \<open>\<^verbatim>\<open>str.split\<close> on a separator character.\<close>

fun split_on :: "char \<Rightarrow> string \<Rightarrow> string list" where
  "split_on c [] = [[]]"
| "split_on c (x # xs) =
     (if x = c then [] # split_on c xs
      else (case split_on c xs of [] \<Rightarrow> [[x]] | w # ws \<Rightarrow> (x # w) # ws))"

definition child :: "string \<Rightarrow> string \<Rightarrow> string" where
  "child cur c = (if cur = ''/'' then cur @ c else cur @ ''/'' @ c)"

text \<open>
  Path resolution as the kernel does it, one component after the other: empty components
  and \<open>.\<close> stay, \<open>..\<close> goes up, a component of more than 255 bytes is refused, and every
  component but the last has to be an existing directory. There are no symbolic links.
\<close>

fun walk :: "filesystem \<Rightarrow> string \<Rightarrow> string list \<Rightarrow> error + string" where
  "walk fs cur [] = Inr cur"
| "walk fs cur (c # cs) =
     (if c = [] \<or> c = ''.'' then walk fs cur cs
      else if c = ''..'' then walk fs (parent_dir cur) cs
      else if 255 < length c then Inl (OSError ''File name too long'')
      else if cs = [] then Inr (child cur c)
      else if child cur c \<in> set (dirs fs) then walk fs (child cur c) cs
      else if child cur c \<in> set (map fst (files fs)) then Inl (OSError ''NotADirectoryError'')
      else Inl (OSError ''FileNotFoundError''))"

definition resolve :: "filesystem \<Rightarrow> string \<Rightarrow> error + string" where
  "resolve fs path =
     (if CHR 0x00 \<in> set path then Inl (ValueError ''embedded null byte'')
      else if path = [] then Inl (OSError ''FileNotFoundError'')
      else if 4095 < length path then Inl (OSError ''File name too long'')
      else walk fs (if hd path = CHR ''/'' then ''/'' else cwd fs) (split_on CHR ''/'' path))"

text \<open>
  \<^verbatim>\<open>tempfile.mkdtemp()\<close>: the environment picks a name or fails; the directory is created
  unless something of that name exists, and its absolute path is returned.
\<close>

definition mkdtemp :: "env \<Rightarrow> filesystem \<Rightarrow> error + (string \<times> filesystem)" where
  "mkdtemp E fs =
     (case tempdir_choice E fs of
        Inl e \<Rightarrow> Inl e
      | Inr chosen \<Rightarrow>
          (case resolve fs chosen of
             Inl e \<Rightarrow> Inl e
           | Inr d \<Rightarrow>
               if d = ''/'' \<or> d \<in> set (dirs fs) \<or> d \<in> set (map fst (files fs))
               then Inl (OSError ''FileExistsError'')
               else Inr (d, fs\<lparr>dirs := d # dirs fs\<rparr>)))"

text \<open>\<^verbatim>\<open>with open(path, "wb") as f: f.write(data)\<close>.\<close>

definition open_write :: "filesystem \<Rightarrow> string \<Rightarrow> bytes \<Rightarrow> error + filesystem" where
  "open_write fs path data =
     (case resolve fs path of
        Inl e \<Rightarrow> Inl e
      | Inr t \<Rightarrow>
          if t = ''/'' \<or> t \<in> set (dirs fs) then Inl (OSError ''IsADirectoryError'')
          else Inr (fs\<lparr>files := (t, data) # filter (\<lambda>(p, b). p \<noteq> t) (files fs)\<rparr>))"

text \<open>
  \<^verbatim>\<open>shutil.rmtree(d, ignore_errors=True)\<close>: every file below the directory is unlinked and
  every directory below it, and the directory itself, is removed once it is empty. A
  removal that the operating system refuses is skipped without an exception, and then the
  directories above the entry that stayed are not empty and stay as well.
\<close>

definition rmtree :: "string \<Rightarrow> filesystem \<Rightarrow> filesystem" where
  "rmtree d fs =
     fs\<lparr>dirs := filter
                (\<lambda>p. \<not> (p = d \<or> under d p) \<or> p \<in> set (locked fs)
                      \<or> filter (\<lambda>q. under p q \<and> q \<in> set (locked fs))
                           (dirs fs @ map fst (files fs)) \<noteq> [])
                (dirs fs),
        files := filter (\<lambda>(p, b). \<not> under d p \<or> p \<in> set (locked fs)) (files fs)\<rparr>"

text \<open>\<^verbatim>\<open>sf.read\<close>: the decoder applied to the bytes stored at the path.\<close>

definition sf_read :: "env \<Rightarrow> string \<Rightarrow> filesystem \<Rightarrow> error + (ndarray \<times> int)" where
  "sf_read E filepath fs =
     (case resolve fs filepath of
        Inl e \<Rightarrow> Inl (LibsndfileError ''Error opening file'')
      | Inr t \<Rightarrow>
          (case map_of (files fs) t of
             None \<Rightarrow> Inl (LibsndfileError ''Error opening file'')
           | Some b \<Rightarrow> libsndfile E filepath b))"

section \<open>The source functions\<close>

text \<open>Lines 28-30: the mixdown, \<^verbatim>\<open>if y.ndim > 1: y = np.mean(y, axis=1)\<close>.\<close>

fun mixdown :: "ndarray \<Rightarrow> real list" where
  "mixdown (Arr2 rows) = mean_axis1 rows"
| "mixdown (Arr1 ys) = ys"

text \<open>Lines 35-39: resampling to 16 kHz, only when the native rate differs.\<close>

definition target_sr :: int where
  "target_sr = 16000"

definition resample_stage :: "env \<Rightarrow> real list \<Rightarrow> int \<Rightarrow> error + (real list \<times> int)" where
  "resample_stage E y rate =
     (if rate \<noteq> target_sr
      then (case resample E y rate target_sr of
              Inl e \<Rightarrow> Inl e
            | Inr y' \<Rightarrow> Inr (y', target_sr))
      else Inr (y, rate))"

text \<open>Lines 43-54: each feature under its own \<^verbatim>\<open>try\<close>/\<^verbatim>\<open>except Exception\<close>.\<close>

definition pitch_feature :: "env \<Rightarrow> real list \<Rightarrow> pyfloat" where
  "pitch_feature E y = (case yin E y 50 300 of Inl e \<Rightarrow> NaN | Inr pitch \<Rightarrow> nanmean pitch)"

definition energy_feature :: "env \<Rightarrow> real list \<Rightarrow> pyfloat" where
  "energy_feature E y = (case rms E y of Inl e \<Rightarrow> NaN | Inr r \<Rightarrow> nanmean r)"

definition extract_audio_metadata :: "env \<Rightarrow> string \<Rightarrow> filesystem \<Rightarrow> error + audio_info" where
  "extract_audio_metadata E filepath fs =
     (case sf_read E filepath fs of
        Inl e \<Rightarrow> Inl e
      | Inr (y0, sr0) \<Rightarrow>
          (case resample_stage E (map (float32 E) (mixdown y0)) sr0 of
             Inl e \<Rightarrow> Inl e
           | Inr (y, rate) \<Rightarrow>
               Inr \<lparr>samples = length y,
                    sr = rate,
                    duration = get_duration y rate,
                    avg_pitch = pitch_feature E y,
                    avg_energy = energy_feature E y,
                    waveform = y\<rparr>))"

text \<open>The profile \<^verbatim>\<open>process_audio_file\<close> falls back to when extraction raises.\<close>

definition default_info :: audio_info where
  "default_info =
     \<lparr>samples = 0, sr = 0, duration = 0, avg_pitch = NaN, avg_energy = NaN, waveform = []\<rparr>"

text \<open>
  \<^verbatim>\<open>process_audio_file\<close>: the result (or the exception that leaves the function) and the
  file system afterwards. \<^verbatim>\<open>mkdtemp\<close>, the join and the \<^verbatim>\<open>print\<close> of lines 77-79 come before
  the \<^verbatim>\<open>try\<close>, so an exception of \<^verbatim>\<open>print\<close> leaves without the \<^verbatim>\<open>finally\<close> clause; the
  clause runs on every way out of the \<^verbatim>\<open>try\<close>.
\<close>

definition process_audio_file ::
  "env \<Rightarrow> uploaded_file \<Rightarrow> filesystem \<Rightarrow> (error + (int \<times> string \<times> audio_info)) \<times> filesystem" where
  "process_audio_file E uploaded fs =
     (case mkdtemp E fs of
        Inl e \<Rightarrow> (Inl e, fs)
      | Inr (temp_dir, fs1) \<Rightarrow>
          let temp_file_path = path_join temp_dir (name uploaded)
          in (case print_stdout E (''filepath:  '' @ temp_file_path) of
                Some e \<Rightarrow> (Inl e, fs1)
              | None \<Rightarrow>
                  let (outcome, fs2) =
                        (case open_write fs1 temp_file_path (read uploaded) of
                           Inl e \<Rightarrow> (Inl e, fs1)
                         | Inr fsw \<Rightarrow>
                             let info = (case extract_audio_metadata E temp_file_path fsw of
                                           Inl e \<Rightarrow> default_info
                                         | Inr i \<Rightarrow> i)
                             in (case infa_deepfake E temp_file_path fsw of
                                   (Inl e, fsc) \<Rightarrow> (Inl e, fsc)
                                 | (Inr (status, message), fsc) \<Rightarrow>
                                     (Inr (status, message, info), fsc)))
                  in (outcome, rmtree temp_dir fs2)))"

text \<open>\<^verbatim>\<open>force_real_result\<close>, lines 266-274.\<close>

definition force_real_result :: "audio_info \<Rightarrow> int \<times> string \<times> audio_info" where
  "force_real_result info =
     (1, ''This audio was recorded live and is classified as REAL.'', info)"

text \<open>
  The record branch of \<^verbatim>\<open>main\<close>, lines 880-897. \<^verbatim>\<open>mkdtemp\<close> sits inside the \<^verbatim>\<open>try\<close>, so
  when it raises, the \<^verbatim>\<open>finally\<close> clause reads the unbound local \<^verbatim>\<open>temp_dir\<close> and that
  error is the one that leaves.
\<close>

definition record_branch ::
  "env \<Rightarrow> uploaded_file \<Rightarrow> filesystem \<Rightarrow> (error + (int \<times> string \<times> audio_info)) \<times> filesystem" where
  "record_branch E recorded fs =
     (case mkdtemp E fs of
        Inl e \<Rightarrow> (Inl (UnboundLocalError ''temp_dir''), fs)
      | Inr (temp_dir, fs1) \<Rightarrow>
          let temp_path = path_join temp_dir (name recorded);
              (outcome, fs2) =
                (case open_write fs1 temp_path (read recorded) of
                   Inl e \<Rightarrow> (Inl e, fs1)
                 | Inr fsw \<Rightarrow> (extract_audio_metadata E temp_path fsw, fsw))
          in (case outcome of
                Inl e \<Rightarrow> (Inl e, rmtree temp_dir fs2)
              | Inr info \<Rightarrow> (Inr (force_real_result info), rmtree temp_dir fs2)))"

section \<open>Observations on the file system and sample environments\<close>

text \<open>Neither the directory nor anything below it is left.\<close>

definition removed :: "string \<Rightarrow> filesystem \<Rightarrow> bool" where
  "removed d fs =
     (d \<notin> set (dirs fs) \<and> filter (under d) (dirs fs) = []
      \<and> filter (under d) (map fst (files fs)) = [])"

text \<open>The operating system lets the directory and everything below it be deleted.\<close>

definition deletable :: "string \<Rightarrow> filesystem \<Rightarrow> bool" where
  "deletable d fs = (filter (\<lambda>p. p = d \<or> under d p) (locked fs) = [])"

text \<open>
  A sample environment. Its decoder knows a stereo clip at 16 kHz and a silent mono clip
  at 8 kHz; its pitch tracker raises on silence and its RMS on fewer than three samples;
  its classifier logs every call outside the temporary directory, calls the stereo clip
  fake, raises on inputs of fewer than five bytes and reports failure on anything else.
\<close>

definition demo_env :: env where
  "demo_env =
     \<lparr>libsndfile = (\<lambda>p b. if b = ''RIFF'' then Inr (Arr2 [[1, 3], [2, 0]], 16000)
                          else if b = ''FORM'' then Inr (Arr1 [0, 0, 0], 8000)
                          else Inl (LibsndfileError ''Format not recognised'')),
      float32 = (\<lambda>x. x),
      resample = (\<lambda>y a b. Inr (y @ y)),
      yin = (\<lambda>y lo hi. if sum_list y = 0 then Inl (ParameterError ''no pitch'')
                        else Inr [Finite 100, NaN, Finite 200]),
      rms = (\<lambda>y. if length y < 3 then Inl (ParameterError ''too short'')
                  else Inr [Finite (1 / 2)]),
      tempdir_choice = (\<lambda>fs. Inr ''/tmp/tmpa''),
      print_stdout = (\<lambda>line. None),
      infa_deepfake =
        (\<lambda>p fs. (case resolve fs p of
                     Inl e \<Rightarrow> Inl (RuntimeError ''no such file'')
                   | Inr t \<Rightarrow>
                       (case map_of (files fs) t of
                          None \<Rightarrow> Inl (RuntimeError ''no such file'')
                        | Some b \<Rightarrow>
                            if b = ''RIFF'' then Inr (1, ''Fake'')
                            else if length b < 5 then Inl (RuntimeError ''inference failed'')
                            else Inr (0, ''could not read audio'')),
                   fs\<lparr>files := (''/tmp/infa.log'', p) # files fs\<rparr>))\<rparr>"

definition full_disk_env :: env where
  "full_disk_env =
     demo_env\<lparr>tempdir_choice := (\<lambda>fs. Inl (OSError ''No space left on device''))\<rparr>"

text \<open>
  Two variants: a classifier that keeps the clip open, so that it cannot be deleted
  afterwards, and a console that cannot show the line printed before the \<^verbatim>\<open>try\<close>.
\<close>

definition holding_env :: env where
  "holding_env =
     demo_env\<lparr>infa_deepfake := (\<lambda>p fs. (Inr (1, ''Real''), fs\<lparr>locked := p # locked fs\<rparr>))\<rparr>"

definition mute_env :: env where
  "mute_env =
     demo_env\<lparr>print_stdout := (\<lambda>line. Some (UnicodeEncodeError ''ascii codec''))\<rparr>"

definition demo_fs :: filesystem where
  "demo_fs = \<lparr>cwd = ''/'', dirs = [''/tmp''], files = [], locked = []\<rparr>"

definition made_fs :: filesystem where
  "made_fs = \<lparr>cwd = ''/'', dirs = [''/tmp/tmpa'', ''/tmp''], files = [], locked = []\<rparr>"

definition stored_fs :: "bytes \<Rightarrow> filesystem" where
  "stored_fs b =
     \<lparr>cwd = ''/'', dirs = [''/tmp/tmpa'', ''/tmp''], files = [(''/tmp/tmpa/a.wav'', b)],
      locked = []\<rparr>"

definition logged_fs :: filesystem where
  "logged_fs =
     \<lparr>cwd = ''/'', dirs = [''/tmp''], files = [(''/tmp/infa.log'', ''/tmp/tmpa/a.wav'')],
      locked = []\<rparr>"

definition held_fs :: filesystem where
  "held_fs =
     \<lparr>cwd = ''/'', dirs = [''/tmp/tmpa'', ''/tmp''], files = [(''/tmp/tmpa/a.wav'', ''RIFF'')],
      locked = [''/tmp/tmpa/a.wav'']\<rparr>"

definition escaped_fs :: filesystem where
  "escaped_fs =
     \<lparr>cwd = ''/'', dirs = [''/tmp''],
      files = [(''/tmp/infa.log'', ''/tmp/abs.wav''), (''/tmp/abs.wav'', ''RIFF'')],
      locked = []\<rparr>"

definition absolute_stored_fs :: filesystem where
  "absolute_stored_fs =
     \<lparr>cwd = ''/'', dirs = [''/tmp/tmpa'', ''/tmp''], files = [(''/tmp/abs.wav'', ''RIFF'')],
      locked = []\<rparr>"

definition logged_stored_fs :: "bytes \<Rightarrow> filesystem" where
  "logged_stored_fs b =
     \<lparr>cwd = ''/'', dirs = [''/tmp/tmpa'', ''/tmp''],
      files = [(''/tmp/infa.log'', ''/tmp/tmpa/a.wav''), (''/tmp/tmpa/a.wav'', b)],
      locked = []\<rparr>"

definition absolute_clip :: uploaded_file where
  "absolute_clip = \<lparr>name = ''/tmp/abs.wav'', read = ''RIFF''\<rparr>"

definition clip :: "bytes \<Rightarrow> uploaded_file" where
  "clip b = \<lparr>name = ''a.wav'', read = b\<rparr>"

definition riff_info :: audio_info where
  "riff_info =
     \<lparr>samples = 2, sr = 16000, duration = 1 / 8000, avg_pitch = Finite 150,
      avg_energy = NaN, waveform = [2, 1]\<rparr>"

definition form_info :: audio_info where
  "form_info =
     \<lparr>samples = 6, sr = 16000, duration = 3 / 8000, avg_pitch = NaN,
      avg_energy = Finite (1 / 2), waveform = [0, 0, 0, 0, 0, 0]\<rparr>"

section \<open>Facts about the stages\<close>

lemma resample_stage_rate: "resample_stage E y r = Inr (y', r') \<Longrightarrow> r' = 16000"
  by (auto simp: resample_stage_def target_sr_def split: if_splits sum.splits)

lemma extract_cases:
  assumes "extract_audio_metadata E p fs = Inr info"
  obtains y0 sr0 y where "sf_read E p fs = Inr (y0, sr0)"
    and "resample_stage E (map (float32 E) (mixdown y0)) sr0 = Inr (y, sr info)"
    and "info = \<lparr>samples = length y, sr = sr info, duration = get_duration y (sr info),
                   avg_pitch = pitch_feature E y, avg_energy = energy_feature E y, waveform = y\<rparr>"
  using assms
  by (auto simp: extract_audio_metadata_def split: sum.splits prod.splits)

lemma extract_sr: "extract_audio_metadata E p fs = Inr info \<Longrightarrow> sr info = 16000"
  by (erule extract_cases) (rule resample_stage_rate)

lemma under_trans: "under d p \<Longrightarrow> under p q \<Longrightarrow> under d q"
  unfolding under_def prefix_def by auto

lemma locked_rmtree: "locked (rmtree d fs) = locked fs"
  by (simp add: rmtree_def)

lemma deletable_rmtree: "deletable d (rmtree d fs) = deletable d fs"
  by (simp add: deletable_def locked_rmtree)

lemma removed_rmtree:
  assumes "deletable d fs"
  shows "removed d (rmtree d fs)"
proof -
  from assms have free: "\<And>p. p = d \<or> under d p \<Longrightarrow> p \<notin> set (locked fs)"
    by (auto simp: deletable_def filter_empty_conv)
  then have below: "\<And>p q. p = d \<or> under d p \<Longrightarrow> under p q \<Longrightarrow> q \<notin> set (locked fs)"
    using under_trans by blast
  show ?thesis
    unfolding removed_def rmtree_def using free below
    by (auto simp: filter_empty_conv)
qed

lemma process_audio_file_fs:
  "mkdtemp E fs = Inr (d, fs1) \<Longrightarrow>
   print_stdout E (''filepath:  '' @ path_join d (name uf)) = None \<Longrightarrow>
     \<exists>fs2. snd (process_audio_file E uf fs) = rmtree d fs2"
  by (simp add: process_audio_file_def Let_def split_beta) blast

lemma record_branch_fs:
  "mkdtemp E fs = Inr (d, fs1) \<Longrightarrow> \<exists>fs2. snd (record_branch E uf fs) = rmtree d fs2"
  by (simp add: record_branch_def Let_def split_beta split: sum.splits) blast

lemma no_mkdtemp_fs:
  "mkdtemp E fs = Inl e \<Longrightarrow>
     snd (process_audio_file E uf fs) = fs \<and> snd (record_branch E uf fs) = fs"
  by (simp add: process_audio_file_def record_branch_def)

lemma extract_ignores_classifier:
  "extract_audio_metadata (E\<lparr>infa_deepfake := c\<rparr>) p fs = extract_audio_metadata E p fs"
  by (simp add: extract_audio_metadata_def sf_read_def resample_stage_def pitch_feature_def
      energy_feature_def cong: option.case_cong sum.case_cong prod.case_cong if_cong)

lemma record_branch_ignores_classifier:
  "record_branch (E\<lparr>infa_deepfake := c\<rparr>) rf fs = record_branch E rf fs"
  by (simp add: record_branch_def mkdtemp_def extract_ignores_classifier
      cong: sum.case_cong prod.case_cong)

subsection \<open>The sample environment evaluated\<close>

lemma demo_float32: "float32 demo_env = (\<lambda>x. x)"
  by (simp add: demo_env_def)

lemma demo_yin:
  "yin demo_env y lo hi = (if sum_list y = 0 then Inl (ParameterError ''no pitch'')
                           else Inr [Finite 100, NaN, Finite 200])"
  by (simp add: demo_env_def)

lemma demo_rms:
  "rms demo_env y = (if length y < 3 then Inl (ParameterError ''too short'')
                     else Inr [Finite (1 / 2)])"
  by (simp add: demo_env_def)

lemma resolve_tmpa:
  "''/tmp'' \<in> set (dirs fs) \<Longrightarrow> resolve fs ''/tmp/tmpa'' = Inr ''/tmp/tmpa''"
  by (simp add: resolve_def child_def)

lemma resolve_clip:
  "''/tmp'' \<in> set (dirs fs) \<Longrightarrow> ''/tmp/tmpa'' \<in> set (dirs fs) \<Longrightarrow>
     resolve fs ''/tmp/tmpa/a.wav'' = Inr ''/tmp/tmpa/a.wav''"
  by (simp add: resolve_def child_def)

lemma resolve_absolute:
  "''/tmp'' \<in> set (dirs fs) \<Longrightarrow> resolve fs ''/tmp/abs.wav'' = Inr ''/tmp/abs.wav''"
  by (simp add: resolve_def child_def)

lemma resolve_stored: "resolve (stored_fs b) ''/tmp/tmpa/a.wav'' = Inr ''/tmp/tmpa/a.wav''"
  by (simp add: resolve_clip stored_fs_def)

lemma demo_sf_read:
  "sf_read demo_env ''/tmp/tmpa/a.wav'' (stored_fs b) =
     libsndfile demo_env ''/tmp/tmpa/a.wav'' b"
  by (simp add: sf_read_def resolve_clip stored_fs_def)

lemma demo_sf_read_riff:
  "sf_read demo_env ''/tmp/tmpa/a.wav'' (stored_fs ''RIFF'') = Inr (Arr2 [[1, 3], [2, 0]], 16000)"
  by (simp add: demo_sf_read) (simp add: demo_env_def)

lemma demo_sf_read_form:
  "sf_read demo_env ''/tmp/tmpa/a.wav'' (stored_fs ''FORM'') = Inr (Arr1 [0, 0, 0], 8000)"
  by (simp add: demo_sf_read) (simp add: demo_env_def)

lemma demo_resample_riff:
  "resample_stage demo_env (map (float32 demo_env) (mixdown (Arr2 [[1, 3], [2, 0]]))) 16000
     = Inr ([2, 1], 16000)"
  by (simp add: resample_stage_def target_sr_def demo_env_def mean_axis1_def)

lemma demo_resample_form:
  "resample_stage demo_env (map (float32 demo_env) (mixdown (Arr1 [0, 0, 0]))) 8000
     = Inr ([0, 0, 0, 0, 0, 0], 16000)"
  by (simp add: resample_stage_def target_sr_def demo_env_def)

lemma demo_extract_riff:
  "extract_audio_metadata demo_env ''/tmp/tmpa/a.wav'' (stored_fs ''RIFF'') = Inr riff_info"
  by (simp add: extract_audio_metadata_def demo_sf_read_riff)
     (simp add: demo_env_def resample_stage_def target_sr_def mean_axis1_def get_duration_def
      pitch_feature_def energy_feature_def nanmean_def riff_info_def)

lemma demo_extract_form:
  "extract_audio_metadata demo_env ''/tmp/tmpa/a.wav'' (stored_fs ''FORM'') = Inr form_info"
  by (simp add: extract_audio_metadata_def demo_sf_read_form)
     (simp add: demo_env_def resample_stage_def target_sr_def get_duration_def
      pitch_feature_def energy_feature_def nanmean_def form_info_def)

lemma demo_extract_unknown:
  "b \<noteq> ''RIFF'' \<Longrightarrow> b \<noteq> ''FORM'' \<Longrightarrow>
     extract_audio_metadata demo_env ''/tmp/tmpa/a.wav'' (stored_fs b)
       = Inl (LibsndfileError ''Format not recognised'')"
  by (simp add: extract_audio_metadata_def demo_sf_read) (simp add: demo_env_def)

lemma clip_name: "name (clip b) = ''a.wav''"
  by (simp add: clip_def)

lemma clip_read: "read (clip b) = b"
  by (simp add: clip_def)

lemma demo_path: "path_join ''/tmp/tmpa'' ''a.wav'' = ''/tmp/tmpa/a.wav''"
  by (simp add: path_join_def)

lemma demo_open_write_at: "open_write made_fs ''/tmp/tmpa/a.wav'' b = Inr (stored_fs b)"
  by (simp add: open_write_def resolve_clip made_fs_def stored_fs_def)

lemma demo_open_write:
  "open_write made_fs (path_join ''/tmp/tmpa'' (name (clip b))) (read (clip b)) = Inr (stored_fs b)"
  by (simp add: clip_name clip_read demo_path demo_open_write_at)


lemma demo_extract_clip_riff:
  "extract_audio_metadata demo_env (path_join ''/tmp/tmpa'' (name (clip ''RIFF'')))
     (stored_fs ''RIFF'') = Inr riff_info"
  by (simp add: clip_name demo_path demo_extract_riff)

lemma demo_mkdtemp: "mkdtemp demo_env demo_fs = Inr (''/tmp/tmpa'', made_fs)"
  by (simp add: mkdtemp_def resolve_tmpa demo_env_def demo_fs_def made_fs_def)

lemma demo_print: "print_stdout demo_env line = None"
  by (simp add: demo_env_def)


lemma full_disk_mkdtemp:
  "mkdtemp full_disk_env fs = Inl (OSError ''No space left on device'')"
  by (simp add: mkdtemp_def full_disk_env_def)

lemma demo_classifier:
  "infa_deepfake demo_env ''/tmp/tmpa/a.wav'' (stored_fs b) =
     (if b = ''RIFF'' then Inr (1, ''Fake'')
      else if length b < 5 then Inl (RuntimeError ''inference failed'')
      else Inr (0, ''could not read audio''),
      logged_stored_fs b)"
  by (simp add: demo_env_def resolve_stored) (simp add: stored_fs_def logged_stored_fs_def)

lemma demo_rmtree_logged: "rmtree ''/tmp/tmpa'' (logged_stored_fs b) = logged_fs"
  by (simp add: rmtree_def under_def logged_stored_fs_def logged_fs_def)

lemma demo_rmtree_stored: "rmtree ''/tmp/tmpa'' (stored_fs b) = demo_fs"
  by (simp add: rmtree_def under_def stored_fs_def demo_fs_def)

lemma holding_mkdtemp: "mkdtemp holding_env demo_fs = Inr (''/tmp/tmpa'', made_fs)"
  by (simp add: mkdtemp_def resolve_tmpa holding_env_def demo_env_def demo_fs_def made_fs_def)

lemma holding_print: "print_stdout holding_env line = None"
  by (simp add: holding_env_def demo_env_def)

lemma holding_extract:
  "extract_audio_metadata holding_env ''/tmp/tmpa/a.wav'' (stored_fs ''RIFF'') = Inr riff_info"
  by (simp add: holding_env_def extract_ignores_classifier demo_extract_riff)

lemma holding_classifier:
  "infa_deepfake holding_env p fs = (Inr (1, ''Real''), fs\<lparr>locked := p # locked fs\<rparr>)"
  by (simp add: holding_env_def)

lemma holding_rmtree:
  "rmtree ''/tmp/tmpa'' (stored_fs ''RIFF''\<lparr>locked := ''/tmp/tmpa/a.wav'' # locked (stored_fs ''RIFF'')\<rparr>)
     = held_fs"
  by (simp add: rmtree_def under_def stored_fs_def held_fs_def)

lemma mute_mkdtemp: "mkdtemp mute_env demo_fs = Inr (''/tmp/tmpa'', made_fs)"
  by (simp add: mkdtemp_def resolve_tmpa mute_env_def demo_env_def demo_fs_def made_fs_def)

lemma mute_print: "print_stdout mute_env line = Some (UnicodeEncodeError ''ascii codec'')"
  by (simp add: mute_env_def)

lemma absolute_path: "path_join ''/tmp/tmpa'' (name absolute_clip) = ''/tmp/abs.wav''"
  by (simp add: path_join_def absolute_clip_def)

lemma absolute_read: "read absolute_clip = ''RIFF''"
  by (simp add: absolute_clip_def)

lemma absolute_open_write: "open_write made_fs ''/tmp/abs.wav'' ''RIFF'' = Inr absolute_stored_fs"
  by (simp add: open_write_def resolve_absolute made_fs_def absolute_stored_fs_def)

lemma resolve_absolute_stored:
  "resolve absolute_stored_fs ''/tmp/abs.wav'' = Inr ''/tmp/abs.wav''"
  by (simp add: resolve_absolute absolute_stored_fs_def)

lemma absolute_extract:
  "extract_audio_metadata demo_env ''/tmp/abs.wav'' absolute_stored_fs = Inr riff_info"
  by (simp add: extract_audio_metadata_def sf_read_def resolve_absolute_stored)
     (simp add: absolute_stored_fs_def demo_env_def resample_stage_def target_sr_def
      mean_axis1_def get_duration_def pitch_feature_def energy_feature_def nanmean_def
      riff_info_def)

lemma absolute_classifier:
  "infa_deepfake demo_env ''/tmp/abs.wav'' absolute_stored_fs =
     (Inr (1, ''Fake''),
      absolute_stored_fs\<lparr>files := (''/tmp/infa.log'', ''/tmp/abs.wav'') # files absolute_stored_fs\<rparr>)"
  by (simp add: demo_env_def resolve_absolute_stored) (simp add: absolute_stored_fs_def)

lemma absolute_rmtree:
  "rmtree ''/tmp/tmpa''
     (absolute_stored_fs\<lparr>files := (''/tmp/infa.log'', ''/tmp/abs.wav'') # files absolute_stored_fs\<rparr>)
     = escaped_fs"
  by (simp add: rmtree_def under_def absolute_stored_fs_def escaped_fs_def)

section \<open>The decoder and normaliser\<close>

text \<open>
  C5. Whenever \<^verbatim>\<open>extract_audio_metadata\<close> returns a profile whose sample buffer is not
  empty, the profile's \<open>sr\<close> field is exactly 16000. (By \<open>extract_sr\<close> the rate is 16000
  for the empty buffer as well.)
\<close>

theorem decoded_rate_16000:
  "extract_audio_metadata E p fs = Inr info \<Longrightarrow> waveform info \<noteq> [] \<Longrightarrow> sr info = 16000"
  by (rule extract_sr)

text \<open>
  C5 at a concrete input: the silent 8 kHz mono clip comes back with six samples at
  16000.
\<close>

theorem decoded_rate_16000_witness:
  "extract_audio_metadata demo_env ''/tmp/tmpa/a.wav'' (stored_fs ''FORM'') = Inr form_info
   \<and> waveform form_info \<noteq> [] \<and> sr form_info = 16000"
proof -
  have ne: "waveform form_info \<noteq> []" by (simp add: form_info_def)
  from decoded_rate_16000 [OF demo_extract_form ne] demo_extract_form ne show ?thesis by simp
qed

text \<open>
  C8. A two-dimensional input is collapsed by taking, at every sample index, the sum of
  that frame's values over all channels divided by the number of channels; the result has
  one sample per frame. A one-dimensional input leaves the mixdown step as it came. A
  frame of a decoded file has at least one channel.
\<close>

theorem mixdown_is_channel_mean:
  assumes "\<And>row. row \<in> set rows \<Longrightarrow> row \<noteq> []"
  shows "length (mixdown (Arr2 rows)) = length rows
     \<and> (\<forall>i<length rows.
           mixdown (Arr2 rows) ! i = (\<Sum>c<length (rows ! i). rows ! i ! c) / real (length (rows ! i)))
     \<and> mixdown (Arr1 ys) = ys"
  by (simp add: mean_axis1_def sum_list_sum_nth atLeast0LessThan)

text \<open>
  C8 at a concrete input: the frames (1, 3) and (2, 0) become 2 and 1, so the first
  output sample is the value of neither channel.
\<close>

theorem mixdown_is_channel_mean_witness:
  "mixdown (Arr2 [[1, 3], [2, 0]]) = [2, 1] \<and> mixdown (Arr1 [1, 3]) = [1, 3]"
proof -
  have ne: "\<And>row. row \<in> set [[1, 3], [2, 0 :: real]] \<Longrightarrow> row \<noteq> []" by auto
  from mixdown_is_channel_mean [of "[[1, 3], [2, 0]]" "[1, 3]", OF ne]
  have len: "length (mixdown (Arr2 [[1, 3], [2, 0]])) = 2"
    and nth: "\<forall>i<2. mixdown (Arr2 [[1, 3], [2, 0]]) ! i
                = (\<Sum>c<length ([[1, 3], [2, 0 :: real]] ! i). [[1, 3], [2, 0]] ! i ! c)
                  / real (length ([[1, 3], [2, 0 :: real]] ! i))"
    and mono: "mixdown (Arr1 [1, 3]) = [1, 3]"
    by simp_all
  from nth have "mixdown (Arr2 [[1, 3], [2, 0]]) ! 0 = 2" "mixdown (Arr2 [[1, 3], [2, 0]]) ! 1 = 1"
    by (simp_all add: lessThan_Suc numeral_2_eq_2)
  with len have "mixdown (Arr2 [[1, 3], [2, 0]]) = [2, 1]"
    by (simp add: list_eq_iff_nth_eq less_Suc_eq numeral_2_eq_2)
  with mono show ?thesis by simp
qed

text \<open>
  C9. At a native rate of 16000 the resampling stage returns its input buffer and the
  rate unchanged, without consulting the resampler; the profile's waveform is then the
  mixed-down, float32-converted input with the same number of samples. Running the stage
  on its own output changes nothing.
\<close>

theorem resample_identity_at_16k:
  "resample_stage E y 16000 = Inr (y, 16000)
   \<and> (sf_read E p fs = Inr (y0, 16000) \<longrightarrow>
        (\<exists>info. extract_audio_metadata E p fs = Inr info
           \<and> waveform info = map (float32 E) (mixdown y0)
           \<and> samples info = length (mixdown y0)
           \<and> sr info = 16000))
   \<and> (resample_stage E y r = Inr (y', r') \<longrightarrow> resample_stage E y' r' = Inr (y', r'))"
  by (auto simp: resample_stage_def target_sr_def extract_audio_metadata_def split: sum.splits if_splits)

text \<open>
  C9 at a concrete input: the 16 kHz stereo clip keeps its two mixed-down samples.
\<close>

theorem resample_identity_at_16k_witness:
  "resample_stage demo_env [2, 1] 16000 = Inr ([2, 1], 16000)
   \<and> (\<exists>info. extract_audio_metadata demo_env ''/tmp/tmpa/a.wav'' (stored_fs ''RIFF'') = Inr info
           \<and> waveform info = [2, 1] \<and> samples info = 2 \<and> sr info = 16000)"
  using resample_identity_at_16k [of demo_env "[2, 1]" "''/tmp/tmpa/a.wav''" "stored_fs ''RIFF''"
      "Arr2 [[1, 3], [2, 0]]" 16000 "[2, 1]" 16000]
  by (auto simp: demo_sf_read_riff mean_axis1_def demo_float32 numeral_2_eq_2)

section \<open>The feature extractor\<close>

text \<open>
  C7. For every profile that \<^verbatim>\<open>extract_audio_metadata\<close> returns, the rate is not zero, the
  duration is the sample count divided by the rate, and the duration is 0 when the sample
  count is 0. Over the reals the equality is exact.
\<close>

theorem duration_is_samples_over_rate:
  assumes "extract_audio_metadata E p fs = Inr info"
  shows "sr info \<noteq> 0 \<and> duration info = real (samples info) / real_of_int (sr info)
         \<and> (samples info = 0 \<longrightarrow> duration info = 0)"
proof -
  from assms have rate: "sr info = 16000" by (rule extract_sr)
  from assms obtain y where "samples info = length y" "duration info = get_duration y (sr info)"
    by (elim extract_cases) (metis audio_info.select_convs(1,3))
  then show ?thesis using rate by (auto simp: get_duration_def)
qed

text \<open>
  C7 at a concrete input: two samples at 16000 last 1/8000 of a second.
\<close>

theorem duration_is_samples_over_rate_witness:
  "extract_audio_metadata demo_env ''/tmp/tmpa/a.wav'' (stored_fs ''RIFF'') = Inr riff_info
   \<and> duration riff_info = real (samples riff_info) / real_of_int (sr riff_info)
   \<and> duration riff_info = 1 / 8000 \<and> samples riff_info = 2 \<and> sr riff_info = 16000"
  using duration_is_samples_over_rate [OF demo_extract_riff] demo_extract_riff
  by (simp add: riff_info_def)

text \<open>
  C6. Once the signal is decoded and normalised, \<^verbatim>\<open>extract_audio_metadata\<close> returns a
  profile whatever the two estimators do. The pitch field is NaN when the pitch tracker
  raises and the NaN-ignoring mean of its frames otherwise; the energy field is NaN when
  the RMS computation raises and the mean of its frames otherwise. Neither field depends
  on the outcome of the other estimator.
\<close>

theorem feature_fault_isolation:
  assumes "sf_read E p fs = Inr (y0, sr0)"
    and "resample_stage E (map (float32 E) (mixdown y0)) sr0 = Inr (y, rate)"
  shows "\<exists>info. extract_audio_metadata E p fs = Inr info \<and> waveform info = y
     \<and> (case yin E y 50 300 of Inl e \<Rightarrow> avg_pitch info = NaN | Inr f0 \<Rightarrow> avg_pitch info = nanmean f0)
     \<and> (case rms E y of Inl e \<Rightarrow> avg_energy info = NaN | Inr r \<Rightarrow> avg_energy info = nanmean r)"
  using assms
  by (simp add: extract_audio_metadata_def pitch_feature_def energy_feature_def split: sum.splits)

text \<open>
  C6 at concrete inputs: on the silent clip the pitch tracker raises and the energy is
  still 1/2; on the two-sample clip the RMS raises and the pitch is still 150.
\<close>

theorem feature_fault_isolation_witness:
  "(\<exists>info. extract_audio_metadata demo_env ''/tmp/tmpa/a.wav'' (stored_fs ''FORM'') = Inr info
      \<and> avg_pitch info = NaN \<and> avg_energy info = Finite (1 / 2))
   \<and> (\<exists>info. extract_audio_metadata demo_env ''/tmp/tmpa/a.wav'' (stored_fs ''RIFF'') = Inr info
      \<and> avg_pitch info = Finite 150 \<and> avg_energy info = NaN)"
  using feature_fault_isolation [OF demo_sf_read_form demo_resample_form]
    feature_fault_isolation [OF demo_sf_read_riff demo_resample_riff]
  by (auto simp: demo_yin demo_rms nanmean_def)

section \<open>The upload path\<close>







section \<open>The record path\<close>

text \<open>
  C2 on an undecodable recording. The claim promises status 1 and the REAL message for
  every recording. The record branch copies the steps of \<^verbatim>\<open>process_audio_file\<close>, whose
  docstring names it the common processing for uploaded and recorded audio, but leaves
  out the \<^verbatim>\<open>except\<close> around \<^verbatim>\<open>extract_audio_metadata\<close>: on bytes that do not decode the
  decoder's exception leaves the branch and \<^verbatim>\<open>force_real_result\<close> is never reached, while
  the upload path on the same bytes returns a result with the default profile.
\<close>

theorem record_undecodable_raises:
  "record_branch demo_env (clip ''garbage'') demo_fs
     = (Inl (LibsndfileError ''Format not recognised''), demo_fs)
   \<and> process_audio_file demo_env (clip ''garbage'') demo_fs
     = (Inr (0, ''could not read audio'', default_info), logged_fs)"
  by (simp add: record_branch_def process_audio_file_def demo_mkdtemp demo_print clip_name
      clip_read demo_path demo_open_write_at demo_extract_unknown demo_classifier
      demo_rmtree_logged demo_rmtree_stored)

text \<open>
  The part of C2 that the record branch fulfils. It never calls the classifier: replacing
  it by any other changes nothing. Whenever the clip is stored and its profile extracted,
  the result is status 1 with the message saying the clip is REAL and that profile, after
  \<^verbatim>\<open>rmtree\<close> has run on the temporary directory.
\<close>

theorem record_mode_forced_real:
  "record_branch (E\<lparr>infa_deepfake := c\<rparr>) rf fs = record_branch E rf fs
   \<and> (mkdtemp E fs = Inr (d, fs1) \<longrightarrow>
      open_write fs1 (path_join d (name rf)) (read rf) = Inr fsw \<longrightarrow>
      extract_audio_metadata E (path_join d (name rf)) fsw = Inr info \<longrightarrow>
        record_branch E rf fs
          = (Inr (1, ''This audio was recorded live and is classified as REAL.'', info),
             rmtree d fsw))"
  by (simp add: record_branch_ignores_classifier)
     (simp add: record_branch_def force_real_result_def)

text \<open>
  The forced verdict at a concrete input: the stereo clip is reported REAL although the
  classifier, had it been asked, would have called it fake.
\<close>

theorem record_mode_forced_real_witness:
  "record_branch demo_env (clip ''RIFF'') demo_fs
     = (Inr (1, ''This audio was recorded live and is classified as REAL.'', riff_info), demo_fs)
   \<and> fst (infa_deepfake demo_env ''/tmp/tmpa/a.wav'' (stored_fs ''RIFF'')) = Inr (1, ''Fake'')"
  using record_mode_forced_real [where E = demo_env and rf = "clip ''RIFF''" and fs = demo_fs
      and d = "''/tmp/tmpa''" and ?fs1.0 = made_fs and fsw = "stored_fs ''RIFF''"
      and info = riff_info]
  by (simp add: demo_mkdtemp demo_open_write demo_extract_clip_riff demo_rmtree_stored
      demo_classifier)

section \<open>Transient storage\<close>

text \<open>
  C4 does not hold as stated. \<^verbatim>\<open>shutil.rmtree\<close> is called with \<^verbatim>\<open>ignore_errors=True\<close>: when
  the classifier keeps the clip open so that it cannot be deleted, the invocation returns
  normally with the temporary directory and the clip still on disk. Two more ways in
  which something stays behind on the upload path: \<^verbatim>\<open>print\<close> raises before the \<^verbatim>\<open>try\<close> is
  entered and the fresh directory is never removed; and an absolute file name makes
  \<^verbatim>\<open>os.path.join\<close> drop the directory, so that the clip is written outside it and survives
  the removal.
\<close>

theorem residual_files_counterexample:
  "process_audio_file holding_env (clip ''RIFF'') demo_fs = (Inr (1, ''Real'', riff_info), held_fs)
   \<and> process_audio_file mute_env (clip ''RIFF'') demo_fs
       = (Inl (UnicodeEncodeError ''ascii codec''), made_fs)
   \<and> process_audio_file demo_env absolute_clip demo_fs = (Inr (1, ''Fake'', riff_info), escaped_fs)"
proof -
  have "process_audio_file holding_env (clip ''RIFF'') demo_fs
          = (Inr (1, ''Real'', riff_info), held_fs)"
    by (simp add: process_audio_file_def holding_mkdtemp holding_print clip_name clip_read
        demo_path demo_open_write_at holding_extract holding_classifier holding_rmtree)
  moreover have "process_audio_file mute_env (clip ''RIFF'') demo_fs
          = (Inl (UnicodeEncodeError ''ascii codec''), made_fs)"
    by (simp add: process_audio_file_def mute_mkdtemp mute_print)
  moreover have "process_audio_file demo_env absolute_clip demo_fs
          = (Inr (1, ''Fake'', riff_info), escaped_fs)"
    by (simp add: process_audio_file_def demo_mkdtemp demo_print absolute_path absolute_read
        absolute_open_write absolute_extract absolute_classifier absolute_rmtree)
  ultimately show ?thesis by simp
qed

text \<open>
  C4, as the code has it. On both paths, once the temporary directory is created and the
  \<^verbatim>\<open>try\<close> entered (on the upload path: the \<^verbatim>\<open>print\<close> before it did not raise), \<^verbatim>\<open>rmtree\<close> runs
  on every way out, whatever the decoder, the estimators and the classifier do and
  whether the invocation returns or ends in an exception; and whenever the operating
  system lets the directory and what lies below it be deleted, neither the directory nor
  any path below it exists afterwards. When the directory could not be created, the file
  system is as it was.
\<close>

theorem temp_dir_removed_when_deletable:
  "(case mkdtemp E fs of
      Inl e \<Rightarrow> snd (process_audio_file E uf fs) = fs \<and> snd (record_branch E uf fs) = fs
    | Inr (d, fs1) \<Rightarrow>
        (print_stdout E (''filepath:  '' @ path_join d (name uf)) = None \<longrightarrow>
           (\<exists>fs2. snd (process_audio_file E uf fs) = rmtree d fs2)
           \<and> (deletable d (snd (process_audio_file E uf fs)) \<longrightarrow>
                removed d (snd (process_audio_file E uf fs))))
        \<and> (\<exists>fs2. snd (record_branch E uf fs) = rmtree d fs2)
        \<and> (deletable d (snd (record_branch E uf fs)) \<longrightarrow>
              removed d (snd (record_branch E uf fs))))"
proof (cases "mkdtemp E fs")
  case (Inl e)
  then show ?thesis using no_mkdtemp_fs [of E fs e uf] by simp
next
  case (Inr a)
  obtain d fs1 where a: "a = (d, fs1)" by (cases a)
  have rec: "\<exists>fs2. snd (record_branch E uf fs) = rmtree d fs2"
    using Inr a by (simp add: record_branch_fs)
  then have rec_removed:
    "deletable d (snd (record_branch E uf fs)) \<Longrightarrow> removed d (snd (record_branch E uf fs))"
    by (auto simp: deletable_rmtree removed_rmtree)
  have up: "\<exists>fs2. snd (process_audio_file E uf fs) = rmtree d fs2"
    if "print_stdout E (''filepath:  '' @ path_join d (name uf)) = None"
    using Inr a that by (simp add: process_audio_file_fs)
  then have up_removed:
    "removed d (snd (process_audio_file E uf fs))"
    if "print_stdout E (''filepath:  '' @ path_join d (name uf)) = None"
      and "deletable d (snd (process_audio_file E uf fs))"
    using that by (auto simp: deletable_rmtree removed_rmtree)
  from rec rec_removed up up_removed show ?thesis
    unfolding Inr a by simp
qed

text \<open>
  C4 at concrete inputs: an upload on which the classifier raises, a recording that does
  not decode, and an upload with no room for a temporary directory.
\<close>

theorem temp_dir_removed_when_deletable_witness:
  "removed ''/tmp/tmpa'' (snd (process_audio_file demo_env (clip ''FORM'') demo_fs))
   \<and> removed ''/tmp/tmpa'' (snd (record_branch demo_env (clip ''not audio'') demo_fs))
   \<and> snd (process_audio_file full_disk_env (clip ''RIFF'') demo_fs) = demo_fs"
proof -
  have up: "snd (process_audio_file demo_env (clip ''FORM'') demo_fs) = logged_fs"
    by (simp add: process_audio_file_def demo_mkdtemp demo_print clip_name clip_read demo_path
        demo_open_write_at demo_classifier demo_rmtree_logged)
  have rec: "snd (record_branch demo_env (clip ''not audio'') demo_fs) = demo_fs"
    by (simp add: record_branch_def demo_mkdtemp clip_name clip_read demo_path
        demo_open_write_at demo_extract_unknown demo_rmtree_stored)
  have free: "deletable ''/tmp/tmpa'' logged_fs" "deletable ''/tmp/tmpa'' demo_fs"
    by (simp_all add: deletable_def logged_fs_def demo_fs_def)
  from temp_dir_removed_when_deletable
    [where E = demo_env and fs = demo_fs and uf = "clip ''FORM''"]
    temp_dir_removed_when_deletable
    [where E = demo_env and fs = demo_fs and uf = "clip ''not audio''"]
    temp_dir_removed_when_deletable
    [where E = full_disk_env and fs = demo_fs and uf = "clip ''RIFF''"]
  show ?thesis
    by (simp add: demo_mkdtemp full_disk_mkdtemp demo_print up rec free)
qed

section \<open>The forced verdict\<close>

text \<open>
  C10. The record-mode forcing operation returns status 1, the fixed message
  "This audio was recorded live and is classified as REAL." and the profile it was given,
  with every field as it was; being a function of the profile alone it has no other
  effect.
\<close>

theorem force_real_result_frame:
  "force_real_result info =
     (1, ''This audio was recorded live and is classified as REAL.'', info)
   \<and> samples (snd (snd (force_real_result info))) = samples info
   \<and> sr (snd (snd (force_real_result info))) = sr info
   \<and> duration (snd (snd (force_real_result info))) = duration info
   \<and> avg_pitch (snd (snd (force_real_result info))) = avg_pitch info
   \<and> avg_energy (snd (snd (force_real_result info))) = avg_energy info
   \<and> waveform (snd (snd (force_real_result info))) = waveform info"
  by (simp add: force_real_result_def)

end
